theory Spec2Isabelle
  imports Main "HOL-Library.Mapping" "HOL-Library.AList_Mapping"
begin

section \<open>Errors and collaborators\<close>

text \<open>
  The class \<open>ToolContext\<close> of \<open>google/adk/tools/tool_context.py\<close> raises
  \<open>ValueError\<close> itself, with a message. Reading an attribute an object does not have
  raises \<open>AttributeError\<close>, indexing \<open>None\<close> raises \<open>TypeError\<close>, and indexing a
  dictionary with a missing key raises \<open>KeyError\<close>. A collaborator (auth handler,
  artifact service, memory service) may raise any exception, one of these classes or
  another one (\<open>Other\<close>); the class catches nothing, so the exception reaches the caller
  as it is.
\<close>

datatype 'e error =
    ValueError string
  | AttributeError string
  | TypeError string
  | KeyError string
  | Other 'e

text \<open>
  The collaborators are not defined in this file of the repository. Each one is a
  record of its methods, with the signatures the call sites use; a call either
  raises (\<open>Inl\<close>) or returns (\<open>Inr\<close>). \<open>generate_auth_request\<close> is called without
  arguments on a handler that was built from the configuration alone. The handler's
  \<open>get_auth_response\<close> is handed the state object of the context itself, not a copy:
  what it does with it is not decided here, so it maps the world \<open>'w\<close> before the call to
  its outcome and the world after it.
\<close>

record ('e, 'req, 'st, 'cred, 'w) AuthHandler =
  generate_auth_request :: "'e error + 'req"
  get_auth_response :: "'st \<Rightarrow> 'w \<Rightarrow> ('e error + 'cred) \<times> 'w"

record 'e ArtifactService =
  list_artifact_keys :: "string \<Rightarrow> string \<Rightarrow> string \<Rightarrow> 'e error + string list"

record ('e, 'resp) MemoryService =
  search_memory :: "string \<Rightarrow> string \<Rightarrow> string \<Rightarrow> 'e error + 'resp"

record Session =
  session_id :: string

text \<open>
  The attribute \<open>requested_auth_configs\<close> of the invocation context is probed with
  \<open>hasattr\<close>, then tested for truth, then searched for a key: it may be missing,
  hold \<open>None\<close>, or hold a dictionary.
\<close>

datatype 'cred attribute = Missing | NoneValue | Dict "(string, 'cred) mapping"

record ('e, 'resp, 'cred) InvocationContext =
  app_name :: string
  user_id :: string
  session :: Session
  artifact_service :: "'e ArtifactService option"
  memory_service :: "('e, 'resp) MemoryService option"
  requested_auth_configs :: "'cred attribute"

section \<open>Event actions and the store\<close>

text \<open>
  An \<open>EventActions\<close> object is shared between the tool context and whoever passed it
  to the constructor, and is mutated in place. Objects of that class therefore live in
  a store and are held by reference. The fields of the class other than
  \<open>requested_auth_configs\<close> are the extension part of the record.
\<close>

type_synonym ref = nat

record 'req EventActions =
  requested_auth_configs :: "(string, 'req) mapping"

record ('req, 'z) heap =
  cells :: "ref \<Rightarrow> ('req, 'z) EventActions_scheme"
  next_ref :: ref

section \<open>The contexts\<close>

text \<open>
  \<open>ToolContext\<close> extends \<open>CallbackContext\<close>, from which it has the attributes
  \<open>_invocation_context\<close> and \<open>_event_actions\<close> and the property \<open>state\<close>; the fields are
  named without the leading underscore. \<open>function_call_id\<close> is an optional string.
  The type of the state is left open: the class only hands it to the auth handler.
\<close>

record ('e, 'resp, 'cred, 'st) CallbackContext =
  invocation_context :: "('e, 'resp, 'cred) InvocationContext"
  event_actions :: ref
  state :: 'st

record ('e, 'resp, 'cred, 'st) ToolContext = "('e, 'resp, 'cred, 'st) CallbackContext" +
  function_call_id :: "string option"

text \<open>
  Everything a call on a tool context can reach: the context with its fields and its
  state, and the store of the event-actions objects.
\<close>

record ('e, 'resp, 'cred, 'st, 'req, 'z) world =
  ctx :: "('e, 'resp, 'cred, 'st) ToolContext"
  store :: "('req, 'z) heap"

section \<open>Outcomes of a method call\<close>

text \<open>
  A method maps the store before the call to its outcome and the store after it:
  \<open>raise\<close> and \<open>return\<close> end it and leave the store as it is, and \<open>call\<close> is the
  call of a service in return position, whose exception is not caught and whose value
  is returned. The two
  coroutines \<open>list_artifacts\<close> and \<open>search_memory\<close> are modelled by what awaiting them
  gives.
\<close>

definition raise :: "'e error \<Rightarrow> 'h \<Rightarrow> ('e error + 'a) \<times> 'h" where
  "raise err h = (Inl err, h)"

definition return :: "'a \<Rightarrow> 'h \<Rightarrow> ('e error + 'a) \<times> 'h" where
  "return v h = (Inr v, h)"

definition call :: "'e error + 'a \<Rightarrow> 'h \<Rightarrow> ('e error + 'a) \<times> 'h" where
  "call r h = (case r of Inl err \<Rightarrow> raise err h | Inr v \<Rightarrow> return v h)"

section \<open>Dictionary and attribute operations\<close>

text \<open>
  The three tests of the guard of \<open>get_auth_response\<close>, on the attribute
  \<open>requested_auth_configs\<close> of the invocation context: \<open>hasattr\<close>, the truth value
  (\<open>None\<close> and the empty dictionary are false) and \<open>in\<close>. Python's \<open>and\<close> evaluates the
  later tests only when the earlier ones hold; the later tests are given the value
  \<open>False\<close> where Python would not reach them, which leaves the conjunction as it is.
  \<open>getitem\<close> is the subscription \<open>requested_auth_configs["bearer"]\<close>.
\<close>

fun hasattr :: "'cred attribute \<Rightarrow> bool" where
  "hasattr Missing = False"
| "hasattr NoneValue = True"
| "hasattr (Dict m) = True"

fun truthy :: "'cred attribute \<Rightarrow> bool" where
  "truthy Missing = False"
| "truthy NoneValue = False"
| "truthy (Dict m) = (\<not> Mapping.is_empty m)"

fun contains :: "string \<Rightarrow> 'cred attribute \<Rightarrow> bool" where
  "contains k Missing = False"
| "contains k NoneValue = False"
| "contains k (Dict m) = (k \<in> Mapping.keys m)"

fun getitem :: "'cred attribute \<Rightarrow> string \<Rightarrow> 'h \<Rightarrow> ('e error + 'cred) \<times> 'h" where
  "getitem Missing k = raise (AttributeError ''requested_auth_configs'')"
| "getitem NoneValue k = raise (TypeError ''NoneType object is not subscriptable'')"
| "getitem (Dict m) k =
     (case Mapping.lookup m k of None \<Rightarrow> raise (KeyError k) | Some v \<Rightarrow> return v)"

text \<open>
  The assignment \<open>self._event_actions.requested_auth_configs[k] = v\<close>: the dictionary of
  the object that the reference \<open>r\<close> points to gets \<open>v\<close> under \<open>k\<close>, replacing what was
  there.
\<close>

definition setitem ::
  "ref \<Rightarrow> string \<Rightarrow> 'req \<Rightarrow> ('req, 'z) heap \<Rightarrow> ('req, 'z) heap" where
  "setitem r k v h =
     h\<lparr>cells := (cells h)(r := (cells h r)
          \<lparr>requested_auth_configs :=
             Mapping.update k v (EventActions.requested_auth_configs (cells h r))\<rparr>)\<rparr>"

section \<open>ToolContext\<close>

text \<open>
  The methods of the class, in the order of the source. The class \<open>AuthHandler\<close> is a
  parameter of the two methods that construct a handler from the configuration.
  In \<open>request_credential\<close> the test \<open>not self.function_call_id\<close> holds for \<open>None\<close> and
  for the empty string, and the right-hand side of the assignment is evaluated before
  the dictionary is written.
\<close>

definition actions ::
  "('e, 'resp, 'cred, 'st) ToolContext \<Rightarrow> 'h \<Rightarrow> ('e error + ref) \<times> 'h" where
  "actions self = return (event_actions self)"

definition request_credential ::
  "('cfg \<Rightarrow> ('e, 'req, 'st, 'cred, 'w) AuthHandler) \<Rightarrow>
   ('e, 'resp, 'cred, 'st) ToolContext \<Rightarrow>
   'cfg \<Rightarrow> ('req, 'z) heap \<Rightarrow> ('e error + unit) \<times> ('req, 'z) heap" where
  "request_credential AuthHandler self auth_config h =
     (case function_call_id self of
        None \<Rightarrow> raise (ValueError ''function_call_id is not set.'') h
      | Some fcid \<Rightarrow>
          if fcid = [] then raise (ValueError ''function_call_id is not set.'') h
          else (case generate_auth_request (AuthHandler auth_config) of
                  Inl err \<Rightarrow> raise err h
                | Inr req \<Rightarrow> return () (setitem (event_actions self) fcid req h)))"

definition get_auth_response ::
  "('cfg \<Rightarrow> ('e, 'req, 'st, 'cred, 'w) AuthHandler) \<Rightarrow>
   ('e, 'resp, 'cred, 'st) ToolContext \<Rightarrow>
   'cfg \<Rightarrow> 'w \<Rightarrow> ('e error + 'cred) \<times> 'w" where
  "get_auth_response AuthHandler self auth_config =
     (let configs = InvocationContext.requested_auth_configs (invocation_context self) in
      if hasattr configs \<and> truthy configs \<and> contains ''bearer'' configs
      then getitem configs ''bearer''
      else AuthHandler.get_auth_response (AuthHandler auth_config) (state self))"

definition list_artifacts ::
  "('e, 'resp, 'cred, 'st) ToolContext \<Rightarrow> 'h \<Rightarrow> ('e error + string list) \<times> 'h" where
  "list_artifacts self =
     (let ic = invocation_context self in
      case artifact_service ic of
        None \<Rightarrow> raise (ValueError ''Artifact service is not initialized.'')
      | Some service \<Rightarrow>
          call (list_artifact_keys service (app_name ic) (user_id ic) (session_id (session ic))))"

definition search_memory ::
  "('e, 'resp, 'cred, 'st) ToolContext \<Rightarrow> string \<Rightarrow> 'h \<Rightarrow> ('e error + 'resp) \<times> 'h" where
  "search_memory self query =
     (let ic = invocation_context self in
      case memory_service ic of
        None \<Rightarrow> raise (ValueError ''Memory service is not available.'')
      | Some service \<Rightarrow>
          call (MemoryService.search_memory service (app_name ic) (user_id ic) query))"

section \<open>Construction\<close>

text \<open>
  Modelled from the spec: the constructor of the base class \<open>CallbackContext\<close>, which
  \<open>tool_context.py\<close> imports and does not define. The spec says of the constructor that
  it stores the invocation context and initialises the base callback context with the
  given event actions, defaulted if absent, and that the base context exposes \<open>state\<close>.
  The default \<open>EventActions\<close> object \<open>fresh\<close> and the state \<open>st\<close> that the base class
  sets up are parameters. A default object is allocated at the next free reference.
\<close>

definition CallbackContext_init ::
  "('req, 'z) EventActions_scheme \<Rightarrow> 'st \<Rightarrow> ('e, 'resp, 'cred) InvocationContext \<Rightarrow>
   ref option \<Rightarrow> ('req, 'z) heap \<Rightarrow>
   ('e, 'resp, 'cred, 'st) CallbackContext \<times> ('req, 'z) heap" where
  "CallbackContext_init fresh st ic ea h =
     (case ea of
        Some r \<Rightarrow> (\<lparr>invocation_context = ic, event_actions = r, state = st\<rparr>, h)
      | None \<Rightarrow>
          (\<lparr>invocation_context = ic, event_actions = next_ref h, state = st\<rparr>,
           h\<lparr>cells := (cells h)(next_ref h := fresh), next_ref := Suc (next_ref h)\<rparr>))"

text \<open>
  \<open>ToolContext.__init__\<close> calls the constructor of the base class with the event actions
  it was given and then stores \<open>function_call_id\<close> as given.
\<close>

definition ToolContext_init ::
  "('req, 'z) EventActions_scheme \<Rightarrow> 'st \<Rightarrow> ('e, 'resp, 'cred) InvocationContext \<Rightarrow>
   string option \<Rightarrow> ref option \<Rightarrow> ('req, 'z) heap \<Rightarrow>
   ('e, 'resp, 'cred, 'st) ToolContext \<times> ('req, 'z) heap" where
  "ToolContext_init fresh st ic fcid ea h =
     (case CallbackContext_init fresh st ic ea h of
        (base, h') \<Rightarrow>
          (\<lparr>invocation_context = invocation_context base,
            event_actions = event_actions base, state = state base,
            function_call_id = fcid\<rparr>, h'))"

section \<open>Example objects\<close>

text \<open>
  A handler whose request names the configuration and whose response is the entry of
  the state under the configuration's name, read without writing anything; an artifact
  service and a memory service; services that raise \<open>ValueError\<close> themselves; a context
  over them; a store whose objects all hold one pending request; the world of a context
  and that store; and a handler whose \<open>get_auth_response\<close> empties the state it is
  handed and the store.
\<close>

type_synonym example_world_type =
  "(string, string list, string, (string, string) mapping, string, unit) world"

definition example_handler ::
  "string \<Rightarrow>
   (string, string, (string, string) mapping, string, example_world_type) AuthHandler" where
  "example_handler cfg =
     \<lparr>generate_auth_request =
        (if cfg = [] then Inl (Other ''no scheme'') else Inr (''request for '' @ cfg)),
      AuthHandler.get_auth_response =
        (\<lambda>st w. (case Mapping.lookup st cfg of
                   None \<Rightarrow> Inl (Other ''no credential'') | Some c \<Rightarrow> Inr c, w))\<rparr>"

definition example_artifacts :: "string ArtifactService" where
  "example_artifacts =
     \<lparr>list_artifact_keys = (\<lambda>app user sid.
        if sid = ''s1'' then Inr [''a.txt'', ''b.png'']
        else Inl (Other ''no such session''))\<rparr>"

definition example_memory :: "(string, string list) MemoryService" where
  "example_memory =
     \<lparr>MemoryService.search_memory = (\<lambda>app user query. Inr [app, user, query])\<rparr>"

definition example_raising_artifacts :: "string ArtifactService" where
  "example_raising_artifacts =
     \<lparr>list_artifact_keys = (\<lambda>app user sid. Inl (ValueError ''bucket name is empty''))\<rparr>"

definition example_raising_memory :: "(string, string list) MemoryService" where
  "example_raising_memory =
     \<lparr>MemoryService.search_memory =
        (\<lambda>app user query. Inl (ValueError ''query is empty''))\<rparr>"

definition example_invocation ::
  "string attribute \<Rightarrow> (string, string list, string) InvocationContext" where
  "example_invocation configs =
     \<lparr>app_name = ''app'', user_id = ''user'', session = \<lparr>session_id = ''s1''\<rparr>,
      artifact_service = None, memory_service = None,
      InvocationContext.requested_auth_configs = configs\<rparr>"

definition example_context ::
  "string attribute \<Rightarrow> string option \<Rightarrow>
   (string, string list, string, (string, string) mapping) ToolContext" where
  "example_context configs fcid =
     \<lparr>invocation_context = example_invocation configs, event_actions = 0,
      state = Mapping.update ''oauth'' ''cred'' Mapping.empty, function_call_id = fcid\<rparr>"

definition example_heap :: "(string, unit) heap" where
  "example_heap =
     \<lparr>cells = (\<lambda>r. \<lparr>requested_auth_configs =
                     Mapping.update ''other'' ''pending'' Mapping.empty\<rparr>),
      next_ref = 1\<rparr>"

definition example_world ::
  "(string, string list, string, (string, string) mapping) ToolContext \<Rightarrow>
   example_world_type" where
  "example_world self = \<lparr>ctx = self, store = example_heap\<rparr>"


section \<open>Auxiliary facts\<close>

lemma lookup_Some_keys: "Mapping.lookup m k = Some v \<Longrightarrow> k \<in> Mapping.keys m"
  by (auto simp: keys_dom_lookup)

lemma lookup_Some_not_empty: "Mapping.lookup m k = Some v \<Longrightarrow> \<not> Mapping.is_empty m"
  by (auto simp: Mapping.is_empty_def keys_dom_lookup)



lemma request_credential_set:
  assumes "function_call_id self = Some fcid" and "fcid \<noteq> []"
    and "generate_auth_request (AuthHandler auth_config) = Inr req"
  shows "request_credential AuthHandler self auth_config h =
           (Inr (), setitem (event_actions self) fcid req h)"
  using assms by (simp add: request_credential_def return_def)

lemma request_credential_unset:
  "function_call_id self = None \<or> function_call_id self = Some [] \<Longrightarrow>
   request_credential AuthHandler self auth_config h =
     (Inl (ValueError ''function_call_id is not set.''), h)"
  by (auto simp: request_credential_def raise_def)

section \<open>The bearer shortcut of get_auth_response\<close>

text \<open>
  C1. When the attribute \<open>requested_auth_configs\<close> of the invocation context holds a
  dictionary with an entry under \<open>"bearer"\<close> (such a dictionary is not empty),
  \<open>get_auth_response\<close> returns the value of that entry. This holds for every
  configuration and every auth handler, also one that would raise: the handler is not
  consulted.
\<close>

theorem get_auth_response_bearer:
  assumes "InvocationContext.requested_auth_configs (invocation_context self) = Dict m"
    and "Mapping.lookup m ''bearer'' = Some tok"
  shows "fst (get_auth_response AuthHandler self auth_config h) = Inr tok"
  using assms
  by (simp add: get_auth_response_def return_def lookup_Some_keys lookup_Some_not_empty)

theorem get_auth_response_bearer_witness:
  "InvocationContext.requested_auth_configs
     (invocation_context
        (example_context (Dict (Mapping.update ''bearer'' ''tok'' Mapping.empty)) None))
     = Dict (Mapping.update ''bearer'' ''tok'' Mapping.empty)
   \<and> Mapping.lookup (Mapping.update ''bearer'' ''tok'' Mapping.empty) ''bearer'' = Some ''tok''
   \<and> fst (get_auth_response example_handler
        (example_context (Dict (Mapping.update ''bearer'' ''tok'' Mapping.empty)) None)
        ''unknown''
        (example_world
           (example_context (Dict (Mapping.update ''bearer'' ''tok'' Mapping.empty)) None)))
      = Inr ''tok''"
proof -
  let ?m = "Mapping.update ''bearer'' ''tok'' Mapping.empty :: (string, string) mapping"
  have a: "InvocationContext.requested_auth_configs
     (invocation_context (example_context (Dict ?m) None)) = Dict ?m"
    by (simp add: example_context_def example_invocation_def)
  have b: "Mapping.lookup ?m ''bearer'' = Some ''tok''" by simp
  from a b get_auth_response_bearer
    [OF a b, of example_handler "''unknown''" "example_world (example_context (Dict ?m) None)"]
  show ?thesis by blast
qed

section \<open>The precondition of request_credential\<close>

text \<open>
  C2. When \<open>function_call_id\<close> is \<open>None\<close> or the empty string, \<open>request_credential\<close>
  raises \<open>ValueError\<close>, whatever the configuration; and a call that returns was made
  with a non-empty \<open>function_call_id\<close>.
\<close>

theorem request_credential_checks_function_call_id:
  "(function_call_id self = None \<or> function_call_id self = Some [] \<longrightarrow>
      fst (request_credential AuthHandler self auth_config h)
        = Inl (ValueError ''function_call_id is not set.''))
   \<and> (fst (request_credential AuthHandler self auth_config h) = Inr () \<longrightarrow>
      (\<exists>fcid. function_call_id self = Some fcid \<and> fcid \<noteq> []))"
  by (auto simp: request_credential_def raise_def return_def split: option.splits sum.splits)

theorem request_credential_checks_function_call_id_witness:
  "function_call_id (example_context Missing None) = None
   \<and> fst (request_credential example_handler (example_context Missing None) ''oauth''
        example_heap) = Inl (ValueError ''function_call_id is not set.'')
   \<and> function_call_id (example_context Missing (Some [])) = Some []
   \<and> fst (request_credential example_handler (example_context Missing (Some [])) ''oauth''
        example_heap) = Inl (ValueError ''function_call_id is not set.'')
   \<and> fst (request_credential example_handler (example_context Missing (Some ''fc1'')) ''oauth''
        example_heap) = Inr ()
   \<and> (\<exists>fcid. function_call_id (example_context Missing (Some ''fc1'')) = Some fcid \<and> fcid \<noteq> [])"
proof -
  have a: "function_call_id (example_context Missing None) = None"
    by (simp add: example_context_def)
  have b: "function_call_id (example_context Missing (Some [])) = Some []"
    by (simp add: example_context_def)
  have c: "fst (request_credential example_handler (example_context Missing (Some ''fc1''))
             ''oauth'' example_heap) = Inr ()"
    by (simp add: request_credential_def return_def example_context_def example_handler_def)
  note t = request_credential_checks_function_call_id
  from a t [of "example_context Missing None" example_handler "''oauth''" example_heap]
  have a': "fst (request_credential example_handler (example_context Missing None) ''oauth''
        example_heap) = Inl (ValueError ''function_call_id is not set.'')" by blast
  from b t [of "example_context Missing (Some [])" example_handler "''oauth''" example_heap]
  have b': "fst (request_credential example_handler (example_context Missing (Some []))
        ''oauth'' example_heap) = Inl (ValueError ''function_call_id is not set.'')" by blast
  from c t [of "example_context Missing (Some ''fc1'')" example_handler "''oauth''" example_heap]
  have c': "\<exists>fcid. function_call_id (example_context Missing (Some ''fc1'')) = Some fcid
              \<and> fcid \<noteq> []" by blast
  from a a' b b' c c' show ?thesis by blast
qed

section \<open>What request_credential records\<close>

text \<open>
  C3. With a non-empty \<open>function_call_id\<close> and a handler that produces a request,
  \<open>request_credential\<close> returns, and afterwards the dictionary
  \<open>requested_auth_configs\<close> of the event actions of the context is the one before the
  call with the request stored under \<open>function_call_id\<close>: that key holds the request,
  every other key holds what it held, the other fields of the event-actions object, every
  other object of the store and the allocation counter are as before. The context itself
  is a value that the method reads and does not assign to.
\<close>

theorem request_credential_records_request:
  assumes "function_call_id self = Some fcid" and "fcid \<noteq> []"
    and "generate_auth_request (AuthHandler auth_config) = Inr req"
  shows "fst (request_credential AuthHandler self auth_config h) = Inr ()
    \<and> EventActions.requested_auth_configs
         (cells (snd (request_credential AuthHandler self auth_config h)) (event_actions self))
       = Mapping.update fcid req
           (EventActions.requested_auth_configs (cells h (event_actions self)))
    \<and> Mapping.lookup (EventActions.requested_auth_configs
         (cells (snd (request_credential AuthHandler self auth_config h)) (event_actions self)))
         fcid = Some req
    \<and> (\<forall>k. k \<noteq> fcid \<longrightarrow>
          Mapping.lookup (EventActions.requested_auth_configs
            (cells (snd (request_credential AuthHandler self auth_config h))
               (event_actions self))) k
          = Mapping.lookup (EventActions.requested_auth_configs
              (cells h (event_actions self))) k)
    \<and> EventActions.more
         (cells (snd (request_credential AuthHandler self auth_config h)) (event_actions self))
       = EventActions.more (cells h (event_actions self))
    \<and> (\<forall>r. r \<noteq> event_actions self \<longrightarrow>
          cells (snd (request_credential AuthHandler self auth_config h)) r = cells h r)
    \<and> next_ref (snd (request_credential AuthHandler self auth_config h)) = next_ref h"
  using assms by (simp add: request_credential_set setitem_def)

theorem request_credential_records_request_witness:
  "function_call_id (example_context Missing (Some ''fc1'')) = Some ''fc1''
   \<and> ''fc1'' \<noteq> []
   \<and> generate_auth_request (example_handler ''oauth'') = Inr ''request for oauth''
   \<and> fst (request_credential example_handler (example_context Missing (Some ''fc1''))
        ''oauth'' example_heap) = Inr ()
   \<and> Mapping.lookup (EventActions.requested_auth_configs
        (cells (snd (request_credential example_handler
           (example_context Missing (Some ''fc1'')) ''oauth'' example_heap)) 0))
        ''fc1'' = Some ''request for oauth''
   \<and> Mapping.lookup (EventActions.requested_auth_configs
        (cells (snd (request_credential example_handler
           (example_context Missing (Some ''fc1'')) ''oauth'' example_heap)) 0))
        ''other'' = Some ''pending''
   \<and> cells (snd (request_credential example_handler
           (example_context Missing (Some ''fc1'')) ''oauth'' example_heap)) 1
      = cells example_heap 1"
proof -
  let ?self = "example_context Missing (Some ''fc1'')"
  have a: "function_call_id ?self = Some ''fc1''" by (simp add: example_context_def)
  have b: "''fc1'' \<noteq> []" by simp
  have c: "generate_auth_request (example_handler ''oauth'') = Inr ''request for oauth''"
    by (simp add: example_handler_def)
  have r: "event_actions ?self = 0" by (simp add: example_context_def)
  have o: "Mapping.lookup (EventActions.requested_auth_configs (cells example_heap 0))
             ''other'' = Some ''pending''"
    by (simp add: example_heap_def)
  note t = request_credential_records_request
    [where AuthHandler = example_handler and auth_config = "''oauth''" and h = example_heap,
     OF a b c, unfolded r]
  from t have t1: "fst (request_credential example_handler ?self ''oauth'' example_heap) = Inr ()"
    by blast
  from t have t2: "Mapping.lookup (EventActions.requested_auth_configs
        (cells (snd (request_credential example_handler ?self ''oauth'' example_heap)) 0))
        ''fc1'' = Some ''request for oauth''" by blast
  from t have "Mapping.lookup (EventActions.requested_auth_configs
        (cells (snd (request_credential example_handler ?self ''oauth'' example_heap)) 0))
        ''other'' = Mapping.lookup (EventActions.requested_auth_configs
              (cells example_heap 0)) ''other''" by simp
  with o have t3: "Mapping.lookup (EventActions.requested_auth_configs
        (cells (snd (request_credential example_handler ?self ''oauth'' example_heap)) 0))
        ''other'' = Some ''pending''" by simp
  from t have t4: "cells (snd (request_credential example_handler ?self ''oauth'' example_heap)) 1
      = cells example_heap 1" by simp
  from a b c t1 t2 t3 t4 show ?thesis by blast
qed

section \<open>Delegation of get_auth_response\<close>

text \<open>
  C4. When the attribute \<open>requested_auth_configs\<close> of the invocation context is missing,
  holds \<open>None\<close>, holds an empty dictionary or holds a dictionary without the key
  \<open>"bearer"\<close>, \<open>get_auth_response\<close> gives the outcome of the handler built from the
  configuration, asked for its response on the state of the context: the credential it
  returns, or the exception it raises, as it is.
\<close>

theorem get_auth_response_delegates:
  assumes "InvocationContext.requested_auth_configs (invocation_context self) = Missing
     \<or> InvocationContext.requested_auth_configs (invocation_context self) = NoneValue
     \<or> (\<exists>m. InvocationContext.requested_auth_configs (invocation_context self) = Dict m
            \<and> (Mapping.is_empty m \<or> ''bearer'' \<notin> Mapping.keys m))"
  shows "fst (get_auth_response AuthHandler self auth_config h) =
     fst (AuthHandler.get_auth_response (AuthHandler auth_config) (state self) h)"
  using assms by (auto simp: get_auth_response_def)

theorem get_auth_response_delegates_witness:
  "(\<exists>m. InvocationContext.requested_auth_configs
           (invocation_context
              (example_context (Dict (Mapping.update ''basic'' ''pw'' Mapping.empty)) None))
         = Dict m \<and> (Mapping.is_empty m \<or> ''bearer'' \<notin> Mapping.keys m))
   \<and> fst (get_auth_response example_handler
        (example_context (Dict (Mapping.update ''basic'' ''pw'' Mapping.empty)) None)
        ''oauth'' (example_world (example_context Missing None))) = Inr ''cred''
   \<and> InvocationContext.requested_auth_configs
        (invocation_context (example_context Missing None)) = Missing
   \<and> fst (get_auth_response example_handler (example_context Missing None)
        ''saml'' (example_world (example_context Missing None))) = Inl (Other ''no credential'')
   \<and> InvocationContext.requested_auth_configs
        (invocation_context (example_context NoneValue None)) = NoneValue
   \<and> fst (get_auth_response example_handler (example_context NoneValue None)
        ''oauth'' (example_world (example_context Missing None))) = Inr ''cred''
   \<and> fst (get_auth_response example_handler (example_context (Dict Mapping.empty) None)
        ''oauth'' (example_world (example_context Missing None))) = Inr ''cred''"
proof -
  let ?m = "Mapping.update ''basic'' ''pw'' Mapping.empty :: (string, string) mapping"
  have a: "\<exists>m. InvocationContext.requested_auth_configs
           (invocation_context (example_context (Dict ?m) None))
         = Dict m \<and> (Mapping.is_empty m \<or> ''bearer'' \<notin> Mapping.keys m)"
    by (simp add: example_context_def example_invocation_def)
  have b: "InvocationContext.requested_auth_configs
        (invocation_context (example_context Missing None)) = Missing"
    by (simp add: example_context_def example_invocation_def)
  have c: "InvocationContext.requested_auth_configs
        (invocation_context (example_context NoneValue None)) = NoneValue"
    by (simp add: example_context_def example_invocation_def)
  have d: "\<exists>m. InvocationContext.requested_auth_configs
           (invocation_context (example_context (Dict Mapping.empty) None))
         = Dict m \<and> (Mapping.is_empty m \<or> ''bearer'' \<notin> Mapping.keys m)"
    by (simp add: example_context_def example_invocation_def)
  have s: "\<And>a f. state (example_context a f) = Mapping.update ''oauth'' ''cred'' Mapping.empty"
    by (simp add: example_context_def)
  note t = get_auth_response_delegates [where AuthHandler = example_handler and h = "example_world (example_context Missing None)"]
  from a have a': "fst (get_auth_response example_handler (example_context (Dict ?m) None)
        ''oauth'' (example_world (example_context Missing None))) = Inr ''cred''"
    by (simp add: t s example_handler_def)
  from b have b': "fst (get_auth_response example_handler (example_context Missing None)
        ''saml'' (example_world (example_context Missing None))) = Inl (Other ''no credential'')"
    by (simp add: t s example_handler_def)
  from c have c': "fst (get_auth_response example_handler (example_context NoneValue None)
        ''oauth'' (example_world (example_context Missing None))) = Inr ''cred''"
    by (simp add: t s example_handler_def)
  from d have d': "fst (get_auth_response example_handler (example_context (Dict Mapping.empty) None)
        ''oauth'' (example_world (example_context Missing None))) = Inr ''cred''"
    by (simp add: t s example_handler_def)
  from a a' b b' c c' d' show ?thesis by blast
qed

section \<open>Listing artifacts\<close>

text \<open>
  C5, as the code has it. \<open>list_artifacts\<close> raises \<open>ValueError\<close> with the message
  \<open>Artifact service is not initialized.\<close> when the artifact service of the invocation
  context is \<open>None\<close>. With a service it gives exactly the outcome of the service's
  \<open>list_artifact_keys\<close> for the application name, the user id and the session id of the
  invocation context: the file names it returns, or the exception it raises, as it is.
  So it fails with a \<open>ValueError\<close> exactly when the service is \<open>None\<close> or the service
  itself raises a \<open>ValueError\<close>.
\<close>

theorem list_artifacts_outcome:
  "(artifact_service (invocation_context self) = None \<longrightarrow>
        fst (list_artifacts self h) = Inl (ValueError ''Artifact service is not initialized.''))
   \<and> (artifact_service (invocation_context self) = Some service \<longrightarrow>
        fst (list_artifacts self h) =
          list_artifact_keys service (app_name (invocation_context self))
            (user_id (invocation_context self))
            (session_id (session (invocation_context self))))
   \<and> ((\<exists>msg. fst (list_artifacts self h) = Inl (ValueError msg)) \<longleftrightarrow>
        (artifact_service (invocation_context self) = None
         \<or> (\<exists>s msg. artifact_service (invocation_context self) = Some s
               \<and> list_artifact_keys s (app_name (invocation_context self))
                     (user_id (invocation_context self))
                     (session_id (session (invocation_context self)))
                   = Inl (ValueError msg))))"
  by (auto simp: list_artifacts_def call_def raise_def return_def Let_def
           split: option.splits sum.splits)

theorem list_artifacts_outcome_witness:
  "artifact_service (invocation_context (example_context Missing None)) = None
   \<and> fst (list_artifacts (example_context Missing None) example_heap)
       = Inl (ValueError ''Artifact service is not initialized.'')
   \<and> artifact_service (invocation_context
        ((example_context Missing None)
           \<lparr>invocation_context :=
              (example_invocation Missing)\<lparr>artifact_service := Some example_artifacts\<rparr>\<rparr>))
       = Some example_artifacts
   \<and> fst (list_artifacts
        ((example_context Missing None)
           \<lparr>invocation_context :=
              (example_invocation Missing)\<lparr>artifact_service := Some example_artifacts\<rparr>\<rparr>)
        example_heap) = Inr [''a.txt'', ''b.png'']"
proof -
  let ?none = "example_context Missing None"
  let ?some = "(example_context Missing None)
           \<lparr>invocation_context :=
              (example_invocation Missing)\<lparr>artifact_service := Some example_artifacts\<rparr>\<rparr>"
  have a: "artifact_service (invocation_context ?none) = None"
    by (simp add: example_context_def example_invocation_def)
  have b: "artifact_service (invocation_context ?some) = Some example_artifacts"
    by simp
  from a list_artifacts_outcome [where self = ?none and h = example_heap]
  have a': "fst (list_artifacts ?none example_heap)
       = Inl (ValueError ''Artifact service is not initialized.'')" by blast
  from b list_artifacts_outcome [where self = ?some and service = example_artifacts and h = example_heap]
  have "fst (list_artifacts ?some example_heap) =
          list_artifact_keys example_artifacts (app_name (invocation_context ?some))
            (user_id (invocation_context ?some))
            (session_id (session (invocation_context ?some)))" by blast
  then have b': "fst (list_artifacts ?some example_heap) = Inr [''a.txt'', ''b.png'']"
    by (simp add: example_invocation_def example_artifacts_def)
  from a a' b b' show ?thesis by blast
qed

text \<open>
  With a service that raises \<open>ValueError\<close> itself, \<open>list_artifacts\<close> fails with that
  \<open>ValueError\<close> although the service is not \<open>None\<close>: nothing between lines 96 and 102 of
  the source catches it.
\<close>

theorem list_artifacts_service_error_counterexample:
  "artifact_service (invocation_context
      ((example_context Missing None)
         \<lparr>invocation_context :=
            (example_invocation Missing)
              \<lparr>artifact_service := Some example_raising_artifacts\<rparr>\<rparr>)) \<noteq> None
   \<and> fst (list_artifacts
        ((example_context Missing None)
           \<lparr>invocation_context :=
              (example_invocation Missing)
                \<lparr>artifact_service := Some example_raising_artifacts\<rparr>\<rparr>)
        example_heap) = Inl (ValueError ''bucket name is empty'')"
  by (simp add: list_artifacts_def call_def raise_def example_invocation_def
        example_raising_artifacts_def)

section \<open>Searching memory\<close>

text \<open>
  C6, as the code has it. \<open>search_memory\<close> raises \<open>ValueError\<close> with the message
  \<open>Memory service is not available.\<close> when the memory service of the invocation context
  is \<open>None\<close>. With a service it gives exactly the outcome of the service's
  \<open>search_memory\<close> for the application name and the user id of the invocation context
  and the query: the response it returns, or the exception it raises, as it is. So it
  fails with a \<open>ValueError\<close> exactly when the service is \<open>None\<close> or the service itself
  raises a \<open>ValueError\<close>.
\<close>

theorem search_memory_outcome:
  "(memory_service (invocation_context self) = None \<longrightarrow>
        fst (search_memory self query h) = Inl (ValueError ''Memory service is not available.''))
   \<and> (memory_service (invocation_context self) = Some service \<longrightarrow>
        fst (search_memory self query h) =
          MemoryService.search_memory service (app_name (invocation_context self))
            (user_id (invocation_context self)) query)
   \<and> ((\<exists>msg. fst (search_memory self query h) = Inl (ValueError msg)) \<longleftrightarrow>
        (memory_service (invocation_context self) = None
         \<or> (\<exists>s msg. memory_service (invocation_context self) = Some s
               \<and> MemoryService.search_memory s (app_name (invocation_context self))
                     (user_id (invocation_context self)) query
                   = Inl (ValueError msg))))"
  by (auto simp: search_memory_def call_def raise_def return_def Let_def
           split: option.splits sum.splits)

theorem search_memory_outcome_witness:
  "memory_service (invocation_context (example_context Missing None)) = None
   \<and> fst (search_memory (example_context Missing None) ''q'' example_heap)
       = Inl (ValueError ''Memory service is not available.'')
   \<and> memory_service (invocation_context
        ((example_context Missing None)
           \<lparr>invocation_context :=
              (example_invocation Missing)\<lparr>memory_service := Some example_memory\<rparr>\<rparr>))
       = Some example_memory
   \<and> fst (search_memory
        ((example_context Missing None)
           \<lparr>invocation_context :=
              (example_invocation Missing)\<lparr>memory_service := Some example_memory\<rparr>\<rparr>)
        ''q'' example_heap) = Inr [''app'', ''user'', ''q'']"
proof -
  let ?none = "example_context Missing None"
  let ?some = "(example_context Missing None)
           \<lparr>invocation_context :=
              (example_invocation Missing)\<lparr>memory_service := Some example_memory\<rparr>\<rparr>"
  have a: "memory_service (invocation_context ?none) = None"
    by (simp add: example_context_def example_invocation_def)
  have b: "memory_service (invocation_context ?some) = Some example_memory"
    by simp
  from a search_memory_outcome [where self = ?none and query = "''q''" and h = example_heap]
  have a': "fst (search_memory ?none ''q'' example_heap)
       = Inl (ValueError ''Memory service is not available.'')" by blast
  from b search_memory_outcome
    [where self = ?some and service = example_memory and query = "''q''" and h = example_heap]
  have "fst (search_memory ?some ''q'' example_heap) =
          MemoryService.search_memory example_memory (app_name (invocation_context ?some))
            (user_id (invocation_context ?some)) ''q''" by blast
  then have b': "fst (search_memory ?some ''q'' example_heap) = Inr [''app'', ''user'', ''q'']"
    by (simp add: example_invocation_def example_memory_def)
  from a a' b b' show ?thesis by blast
qed

text \<open>
  With a service that raises \<open>ValueError\<close> itself, \<open>search_memory\<close> fails with that
  \<open>ValueError\<close> although the service is not \<open>None\<close>: nothing between lines 106 and 112
  of the source catches it.
\<close>

theorem search_memory_service_error_counterexample:
  "memory_service (invocation_context
      ((example_context Missing None)
         \<lparr>invocation_context :=
            (example_invocation Missing)
              \<lparr>memory_service := Some example_raising_memory\<rparr>\<rparr>)) \<noteq> None
   \<and> fst (search_memory
        ((example_context Missing None)
           \<lparr>invocation_context :=
              (example_invocation Missing)
                \<lparr>memory_service := Some example_raising_memory\<rparr>\<rparr>)
        ''q'' example_heap) = Inl (ValueError ''query is empty'')"
  by (simp add: search_memory_def call_def raise_def example_invocation_def
        example_raising_memory_def)

section \<open>get_auth_response writes nothing of its own\<close>



section \<open>The actions accessor\<close>

text \<open>
  C8. A context constructed with an event-actions object holds the reference it was
  given in its base part, and construction allocates nothing and changes no object. The
  accessor \<open>actions\<close> returns that reference, the object itself and not a copy of it,
  and reading it leaves the store unchanged.
\<close>

theorem actions_returns_shared_record:
  "snd (ToolContext_init fresh st ic fcid (Some ea) h) = h
   \<and> event_actions (CallbackContext.truncate (fst (ToolContext_init fresh st ic fcid (Some ea) h)))
       = ea
   \<and> fst (actions (fst (ToolContext_init fresh st ic fcid (Some ea) h)) h) = Inr ea
   \<and> snd (actions self h) = h"
  by (simp add: ToolContext_init_def CallbackContext_init_def actions_def return_def
        CallbackContext.truncate_def)

section \<open>A failing request_credential changes nothing\<close>

text \<open>
  C9. When \<open>function_call_id\<close> is \<open>None\<close> or the empty string, the call to
  \<open>request_credential\<close> raises \<open>ValueError\<close> and the store after it is the store
  before it: the check comes before the assignment.
\<close>

theorem request_credential_failure_is_atomic:
  assumes "function_call_id self = None \<or> function_call_id self = Some []"
  shows "fst (request_credential AuthHandler self auth_config h)
           = Inl (ValueError ''function_call_id is not set.'')
    \<and> snd (request_credential AuthHandler self auth_config h) = h"
  by (simp add: request_credential_unset [OF assms])

theorem request_credential_failure_is_atomic_witness:
  "(function_call_id (example_context Missing (Some [])) = None
      \<or> function_call_id (example_context Missing (Some [])) = Some [])
   \<and> fst (request_credential example_handler (example_context Missing (Some [])) ''oauth''
        example_heap) = Inl (ValueError ''function_call_id is not set.'')
   \<and> snd (request_credential example_handler (example_context Missing (Some [])) ''oauth''
        example_heap) = example_heap"
proof -
  have a: "function_call_id (example_context Missing (Some [])) = None
      \<or> function_call_id (example_context Missing (Some [])) = Some []"
    by (simp add: example_context_def)
  from a request_credential_failure_is_atomic [OF a, of example_handler "''oauth''" example_heap]
  show ?thesis by blast
qed

section \<open>Repeated requests overwrite\<close>

text \<open>
  C10. Two calls of \<open>request_credential\<close> on one context, with a non-empty
  \<open>function_call_id\<close> and a handler that produces a request for both configurations,
  leave the store that the second call alone would leave: the key \<open>function_call_id\<close>
  holds the request of the second configuration, and the keys of the dictionary are those
  it had at first together with \<open>function_call_id\<close>.
\<close>

theorem request_credential_last_write_wins:
  assumes "function_call_id self = Some fcid" and "fcid \<noteq> []"
    and "generate_auth_request (AuthHandler cfg1) = Inr req1"
    and "generate_auth_request (AuthHandler cfg2) = Inr req2"
  shows "snd (request_credential AuthHandler self cfg2
                (snd (request_credential AuthHandler self cfg1 h)))
           = snd (request_credential AuthHandler self cfg2 h)
    \<and> Mapping.lookup (EventActions.requested_auth_configs
         (cells (snd (request_credential AuthHandler self cfg2
                   (snd (request_credential AuthHandler self cfg1 h)))) (event_actions self)))
         fcid = Some req2
    \<and> Mapping.keys (EventActions.requested_auth_configs
         (cells (snd (request_credential AuthHandler self cfg2
                   (snd (request_credential AuthHandler self cfg1 h)))) (event_actions self)))
       = insert fcid (Mapping.keys (EventActions.requested_auth_configs
           (cells h (event_actions self))))"
  using assms by (simp add: request_credential_set setitem_def update_update)

theorem request_credential_last_write_wins_witness:
  "function_call_id (example_context Missing (Some ''fc1'')) = Some ''fc1''
   \<and> ''fc1'' \<noteq> []
   \<and> generate_auth_request (example_handler ''oauth'') = Inr ''request for oauth''
   \<and> generate_auth_request (example_handler ''oidc'') = Inr ''request for oidc''
   \<and> Mapping.lookup (EventActions.requested_auth_configs
        (cells (snd (request_credential example_handler
                       (example_context Missing (Some ''fc1'')) ''oidc''
                  (snd (request_credential example_handler
                          (example_context Missing (Some ''fc1'')) ''oauth'' example_heap)))) 0))
        ''fc1'' = Some ''request for oidc''
   \<and> Mapping.keys (EventActions.requested_auth_configs
        (cells (snd (request_credential example_handler
                       (example_context Missing (Some ''fc1'')) ''oidc''
                  (snd (request_credential example_handler
                          (example_context Missing (Some ''fc1'')) ''oauth'' example_heap)))) 0))
      = {''fc1'', ''other''}"
proof -
  let ?self = "example_context Missing (Some ''fc1'')"
  have a: "function_call_id ?self = Some ''fc1''" by (simp add: example_context_def)
  have b: "''fc1'' \<noteq> []" by simp
  have c: "generate_auth_request (example_handler ''oauth'') = Inr ''request for oauth''"
    by (simp add: example_handler_def)
  have d: "generate_auth_request (example_handler ''oidc'') = Inr ''request for oidc''"
    by (simp add: example_handler_def)
  have r: "event_actions ?self = 0" by (simp add: example_context_def)
  have k: "Mapping.keys (EventActions.requested_auth_configs (cells example_heap 0))
             = {''other''}"
    by (simp add: example_heap_def)
  note t = request_credential_last_write_wins
    [where AuthHandler = example_handler and ?cfg1.0 = "''oauth''" and ?cfg2.0 = "''oidc''"
       and h = example_heap, OF a b c d, unfolded r k]
  from a b c d t show ?thesis by blast
qed

end
